theory Spec2Isabelle
  imports Main "HOL-Library.AList"
begin

section \<open>Data model\<close>

text \<open>
  Bytes are \<^typ>\<open>char\<close>s. A \<^verbatim>\<open>Message\<close> holds the name (subject) it is stored under,
  its bytes, a dirty flag and a cursor; the cursor is a Python integer and nothing bounds
  it. The connection a message refers to is shared state and is passed explicitly to the
  operations that use it. Exceptions are values of the type \<open>error\<close>; an operation that
  can raise returns its outcome together with the state it leaves behind.
\<close>

type_synonym byte = char

record message =
  name :: string
  data :: "byte list"
  dirty :: bool
  pos :: int
  compress :: bool

record mail =
  uid :: string
  subject :: string
  body :: "byte list"
  deleted :: bool

datatype command =
    SEARCH string
  | FETCH string
  | APPEND string string "byte list"
  | STORE string

record server =
  mails :: "mail list"
  next_uid :: nat
  uidplus :: bool
  log :: "command list"

datatype error =
    IOError | RuntimeError | TypeError | IndexError | UnboundLocalError | AttributeError
  | Corrupt | AlreadyExists

record IMAPConnection =
  conn :: server
  mailbox :: string
  uid_cache :: "(string \<times> string) list"

text \<open>
  A node is a \<^verbatim>\<open>File\<close> or a \<^verbatim>\<open>Directory\<close> object over one message; a directory also holds
  its children, a dictionary from the child's name (key) to its display name. The
  filesystem object holds the connection and the dictionary of open nodes. Nodes are
  shared objects: the node an operation obtains is the one held in \<^verbatim>\<open>open_nodes\<close> under
  the name of its message, and a change to it is written back to that entry.
\<close>

datatype node =
    File message
  | Directory message "(string \<times> string) list"

record IMAPFS =
  imap :: IMAPConnection
  open_nodes :: "(string \<times> node) list"

datatype errno = ENOENT | EEXIST | EISDIR | ENOTEMPTY

datatype reply =
    Neg errno
  | Nothing
  | Data "byte list"

section \<open>Python sequence slicing\<close>

text \<open>
  The byte buffers of \<^verbatim>\<open>message.py\<close> are Python \<^verbatim>\<open>bytearray\<close>s and are only ever
  read through slices. A slice bound may be any integer: a negative bound counts from the
  end, and every bound is clamped into \<open>0 .. len\<close>; a slice never raises.
\<close>

definition py_bound :: "nat \<Rightarrow> int \<Rightarrow> nat" where
  "py_bound n i =
     (if i < 0 then (if int n + i < 0 then 0 else nat (int n + i))
      else (if int n < i then n else nat i))"

definition slice :: "'a list \<Rightarrow> int \<Rightarrow> int \<Rightarrow> 'a list" where
  \<comment> \<open>\<^verbatim>\<open>xs[lo:hi]\<close>\<close>
  "slice xs lo hi =
     (let a = py_bound (length xs) lo; b = py_bound (length xs) hi
      in take (b - a) (drop a xs))"

definition slice_from :: "'a list \<Rightarrow> int \<Rightarrow> 'a list" where
  \<comment> \<open>\<^verbatim>\<open>xs[lo:]\<close>\<close>
  "slice_from xs lo = drop (py_bound (length xs) lo) xs"

definition slice_to :: "'a list \<Rightarrow> int \<Rightarrow> 'a list" where
  \<comment> \<open>\<^verbatim>\<open>xs[:hi]\<close>\<close>
  "slice_to xs hi = take (py_bound (length xs) hi) xs"

definition slice_assign :: "'a list \<Rightarrow> int \<Rightarrow> int \<Rightarrow> 'a list \<Rightarrow> 'a list" where
  \<comment> \<open>\<^verbatim>\<open>xs[lo:hi] = ys\<close>: the slice (empty when \<open>hi\<close> lies before \<open>lo\<close>) is replaced by \<open>ys\<close>\<close>
  "slice_assign xs lo hi ys =
     (let a = py_bound (length xs) lo; b = max a (py_bound (length xs) hi)
      in take a xs @ ys @ drop b xs)"

section \<open>The message buffer (\<^verbatim>\<open>message.py\<close>)\<close>

definition Message :: "string \<Rightarrow> byte list \<Rightarrow> message" where
  \<comment> \<open>\<^verbatim>\<open>Message.__init__\<close>\<close>
  "Message n d = \<lparr>name = n, data = d, dirty = False, pos = 0, compress = False\<rparr>"

definition SEEK_SET :: int where "SEEK_SET = 0"
definition SEEK_CUR :: int where "SEEK_CUR = 1"
definition SEEK_END :: int where "SEEK_END = 2"

definition seek :: "message \<Rightarrow> int \<Rightarrow> int \<Rightarrow> message" where
  "seek m off whence =
     (if whence = SEEK_SET then m\<lparr>pos := off\<rparr>
      else if whence = SEEK_CUR then m\<lparr>pos := pos m + off\<rparr>
      else if whence = SEEK_END then m\<lparr>pos := int (length (data m)) - off\<rparr>
      else m)"

definition read :: "message \<Rightarrow> int option \<Rightarrow> byte list \<times> message" where
  "read m size_opt =
     (case size_opt of
        None \<Rightarrow>
          (let buf = slice_from (data m) (pos m)
           in (buf, m\<lparr>pos := pos m + int (length buf)\<rparr>))
      | Some sz \<Rightarrow>
          (let sz' = (if sz + pos m > int (length (data m))
                      then int (length (data m)) - pos m else sz);
               buf = slice (data m) (pos m) (pos m + sz')
           in (buf, m\<lparr>pos := pos m + sz'\<rparr>)))"

definition truncate :: "message \<Rightarrow> int option \<Rightarrow> message" where
  "truncate m size_opt =
     (case size_opt of
        None \<Rightarrow> m
      | Some sz \<Rightarrow>
          (if int (length (data m)) > sz
           then m\<lparr>data := slice_to (data m) sz,
                  pos := (if pos m > sz then sz else pos m),
                  dirty := True\<rparr>
           else m\<lparr>data := data m @ replicate (nat (sz - int (length (data m)))) (CHR ''.''),
                  dirty := True\<rparr>))"

definition write_message :: "message \<Rightarrow> byte list \<Rightarrow> message" where
  \<comment> \<open>\<^verbatim>\<open>Message.write\<close>\<close>
  "write_message m buf =
     (let m1 = (if pos m + int (length buf) > int (length (data m))
                then truncate m (Some (pos m + int (length buf))) else m)
      in m1\<lparr>data := slice_assign (data m1) (pos m1) (pos m1 + int (length buf)) buf,
            pos := pos m1 + int (length buf),
            dirty := True\<rparr>)"


section \<open>The mail server\<close>

text \<open>
  \<^verbatim>\<open>imapconnection.py\<close> talks to an IMAP server through \<^verbatim>\<open>imaplib.IMAP4_SSL\<close>, with
  four commands. Server and library are the environment of the program; they are modelled
  as the list of messages of the selected mailbox, in the order of their UIDs, together
  with a log of the commands received, so that theorems can speak about which server
  interactions an operation performs. What the library hands back is modelled as
  \<^verbatim>\<open>imaplib\<close> builds it:
  \<^item> \<^verbatim>\<open>uid("SEARCH", "SUBJECT", s)\<close> answers the UIDs of the messages with subject \<open>s\<close>,
    in mailbox order; the answer without a match is the empty line \<^verbatim>\<open>[b'']\<close>, here the
    empty list of UIDs;
  \<^item> \<^verbatim>\<open>uid("FETCH", uid, "(BODY[1])")\<close> answers a list whose first item carries the body
    of the message with that UID; when there is no such message the library answers
    \<^verbatim>\<open>('OK', [None])\<close>, the list of the one item \<^verbatim>\<open>None\<close>, never the empty list;
  \<^item> \<^verbatim>\<open>append\<close> stores a new message under the next UID and, when the server supports
    it, reports that UID in an \<^verbatim>\<open>APPENDUID\<close> response code;
  \<^item> \<^verbatim>\<open>uid("STORE", uid, "+FLAGS", "\\Deleted")\<close> flags the message, and does nothing
    when there is none; the source never expunges.
  Bodies are kept as the bytes the program passed: the base64 wrapping of
  \<^verbatim>\<open>put_message\<close> and its unwrapping in \<^verbatim>\<open>get_message\<close> cancel.
\<close>

fun decimal :: "nat \<Rightarrow> string" where
  "decimal n =
     (if n < 10 then [char_of (48 + n)]
      else decimal (n div 10) @ [char_of (48 + n mod 10)])"

declare decimal.simps [simp del]

definition server_search :: "server \<Rightarrow> string \<Rightarrow> string list \<times> server" where
  "server_search srv s =
     (map uid (filter (\<lambda>m. subject m = s) (mails srv)),
      srv\<lparr>log := log srv @ [SEARCH s]\<rparr>)"

definition server_fetch :: "server \<Rightarrow> string \<Rightarrow> byte list option list \<times> server" where
  \<comment> \<open>the list is \<^verbatim>\<open>params[1]\<close>; its first item is \<^verbatim>\<open>None\<close>, or holds the body at index 1\<close>
  "server_fetch srv u =
     ([map_option body (find (\<lambda>m. uid m = u) (mails srv))],
      srv\<lparr>log := log srv @ [FETCH u]\<rparr>)"

definition server_append ::
  "server \<Rightarrow> string \<Rightarrow> string \<Rightarrow> byte list \<Rightarrow> string option \<times> server" where
  "server_append srv box s d =
     (let u = decimal (next_uid srv)
      in (if uidplus srv then Some u else None,
          srv\<lparr>mails := mails srv @ [\<lparr>uid = u, subject = s, body = d, deleted = False\<rparr>],
              next_uid := Suc (next_uid srv),
              log := log srv @ [APPEND box s d]\<rparr>))"

definition server_store_deleted :: "server \<Rightarrow> string \<Rightarrow> server" where
  "server_store_deleted srv u =
     srv\<lparr>mails := map (\<lambda>m. if uid m = u then m\<lparr>deleted := True\<rparr> else m) (mails srv),
         log := log srv @ [STORE u]\<rparr>"

section \<open>The connection (\<^verbatim>\<open>imapconnection.py\<close>)\<close>

text \<open>
  An \<^verbatim>\<open>IMAPConnection\<close> holds the server connection, the selected mailbox and the
  cache from subject to UID. The cache is a Python dictionary: an association list in
  insertion order, without duplicate keys. The module is Python 3 (its annotations are
  \<^verbatim>\<open>dict[str, str]\<close> and \<^verbatim>\<open>bytes | None\<close>), where \<^verbatim>\<open>items()\<close> is a view of the
  dictionary and not a copy.
\<close>

definition truthy :: "string option \<Rightarrow> bool" where
  \<comment> \<open>\<^verbatim>\<open>if uid:\<close> on a value that is a string or \<^verbatim>\<open>None\<close>\<close>
  "truthy u = (case u of None \<Rightarrow> False | Some s \<Rightarrow> s \<noteq> [])"

fun purge_iterating ::
  "(string \<times> string) list \<Rightarrow> string \<Rightarrow> (string \<times> string) list
     \<Rightarrow> (error + unit) \<times> (string \<times> string) list" where
  \<comment> \<open>The loop of \<^verbatim>\<open>get_message\<close> over \<^verbatim>\<open>self.uid_cache.items()\<close>, a live view of the
      dictionary: once an entry has been popped, the iterator's next step finds the size
      changed and raises \<^verbatim>\<open>RuntimeError\<close>, also when no entry is left to visit.\<close>
  "purge_iterating [] u cache = (Inr (), cache)"
| "purge_iterating ((s, s_uid) # items) u cache =
     (if s_uid = u then (Inl RuntimeError, AList.delete s cache)
      else purge_iterating items u cache)"

definition get_message ::
  "IMAPConnection \<Rightarrow> string \<Rightarrow> (error + byte list option) \<times> IMAPConnection" where
  \<comment> \<open>\<^verbatim>\<open>not params[1]\<close> holds of the empty list only. When the first item is \<^verbatim>\<open>None\<close>,
      \<^verbatim>\<open>params[1][0][1]\<close> raises \<^verbatim>\<open>TypeError\<close>.\<close>
  "get_message c u =
     (if u = [] then (Inr None, c)
      else
        (case server_fetch (conn c) u of
           ([], srv) \<Rightarrow>
             (case purge_iterating (uid_cache c) u (uid_cache c) of
                (Inl e, cache) \<Rightarrow> (Inl e, c\<lparr>conn := srv, uid_cache := cache\<rparr>)
              | (Inr _, cache) \<Rightarrow> (Inr None, c\<lparr>conn := srv, uid_cache := cache\<rparr>))
         | (None # _, srv) \<Rightarrow> (Inl TypeError, c\<lparr>conn := srv\<rparr>)
         | (Some d # _, srv) \<Rightarrow> (Inr (Some d), c\<lparr>conn := srv\<rparr>)))"

definition put_message :: "IMAPConnection \<Rightarrow> string \<Rightarrow> byte list \<Rightarrow> IMAPConnection" where
  "put_message c s d =
     (let cache = (if s \<in> fst ` set (uid_cache c) then AList.delete s (uid_cache c)
                   else uid_cache c)
      in (case server_append (conn c) (mailbox c) s d of
            (Some new_uid, srv) \<Rightarrow> c\<lparr>conn := srv, uid_cache := AList.update s new_uid cache\<rparr>
          | (None, srv) \<Rightarrow> c\<lparr>conn := srv, uid_cache := cache\<rparr>))"

definition delete_message :: "IMAPConnection \<Rightarrow> string \<Rightarrow> IMAPConnection" where
  \<comment> \<open>here the loop runs over a copy, \<^verbatim>\<open>list(self.uid_cache.items())\<close>\<close>
  "delete_message c u =
     c\<lparr>conn := server_store_deleted (conn c) u,
       uid_cache := filter (\<lambda>(s, s_uid). s_uid \<noteq> u) (uid_cache c)\<rparr>"

definition search_by_subject ::
  "IMAPConnection \<Rightarrow> string \<Rightarrow> string list option \<times> IMAPConnection" where
  "search_by_subject c s =
     (case server_search (conn c) s of
        (uids, srv) \<Rightarrow> (if uids = [] then None else Some uids, c\<lparr>conn := srv\<rparr>))"

definition get_uid_by_subject ::
  "IMAPConnection \<Rightarrow> string \<Rightarrow> string option \<times> IMAPConnection" where
  "get_uid_by_subject c s =
     (case map_of (uid_cache c) s of
        Some u \<Rightarrow> (Some u, c)
      | None \<Rightarrow>
          (case search_by_subject c s of
             (None, c1) \<Rightarrow> (None, c1)
           | (Some uids, c1) \<Rightarrow>
               (if uids = [] then (None, c1)
                else (Some (last uids),
                      c1\<lparr>uid_cache := AList.update s (last uids) (uid_cache c1)\<rparr>))))"

section \<open>Messages and the connection (\<^verbatim>\<open>message.py\<close>, continued)\<close>

definition flush :: "IMAPConnection \<Rightarrow> message \<Rightarrow> IMAPConnection \<times> message" where
  "flush c m =
     (if dirty m then
        (case get_uid_by_subject c (name m) of
           (old_uid, c1) \<Rightarrow>
             (let c2 = put_message c1 (name m) (data m);
                  c3 = (if truthy old_uid then delete_message c2 (the old_uid) else c2)
              in (c3, m\<lparr>dirty := False\<rparr>)))
      else (c, m))"

definition close :: "IMAPConnection \<Rightarrow> message \<Rightarrow> IMAPConnection \<times> message" where
  "close c m = flush c m"

definition create :: "string \<Rightarrow> message" where
  \<comment> \<open>\<^verbatim>\<open>Message.create\<close>; the argument is the name \<^verbatim>\<open>str(uuid.uuid4())\<close> draws\<close>
  "create fresh = (Message fresh [])\<lparr>dirty := True\<rparr>"

definition message_open ::
  "IMAPConnection \<Rightarrow> string \<Rightarrow> (error + message) \<times> IMAPConnection" where
  \<comment> \<open>\<^verbatim>\<open>Message.open\<close>\<close>
  "message_open c n =
     (case get_uid_by_subject c n of
        (u, c1) \<Rightarrow>
          (if \<not> truthy u then (Inl IOError, c1)
           else
             (case get_message c1 (the u) of
                (Inl e, c2) \<Rightarrow> (Inl e, c2)
              | (Inr None, c2) \<Rightarrow> (Inl IOError, c2)
              | (Inr (Some d), c2) \<Rightarrow> (Inr (Message n d), c2))))"

definition unlink :: "IMAPConnection \<Rightarrow> string \<Rightarrow> IMAPConnection" where
  \<comment> \<open>\<^verbatim>\<open>Message.unlink\<close>\<close>
  "unlink c n =
     (case get_uid_by_subject c n of
        (u, c1) \<Rightarrow> (if \<not> truthy u then c1 else delete_message c1 (the u)))"

section \<open>Nodes (\<^verbatim>\<open>file.py\<close>, \<^verbatim>\<open>directory.py\<close>)\<close>

text \<open>
  The two modules that define the node classes are not among the sources; what
  \<^verbatim>\<open>fs.py\<close> calls of them is modelled from the specification. The encoding of a child
  list, which the specification leaves open, is a parameter: \<open>enc\<close> encodes a child list
  and \<open>dec\<close> decodes one, or fails. A directory's content is the tag and marker
  \<^verbatim>\<open>"d\r\n"\<close> followed by the encoded child list.
\<close>

definition dir_header :: "byte list" where
  \<comment> \<open>\<^verbatim>\<open>"d\r\n"\<close>, the three bytes \<^verbatim>\<open>check_filesystem\<close> compares with\<close>
  "dir_header = [CHR ''d'', CHR 0x0D, CHR 0x0A]"

definition node_message :: "node \<Rightarrow> message" where
  \<comment> \<open>\<^verbatim>\<open>node.message\<close>\<close>
  "node_message nd = (case nd of File msg \<Rightarrow> msg | Directory msg _ \<Rightarrow> msg)"

definition file_from_message :: "message \<Rightarrow> error + node" where
  \<comment> \<open>Modelled from the spec: \<^verbatim>\<open>File.from_message\<close> (file.py is absent) requires the first
      content byte to be \<^verbatim>\<open>'f'\<close> and exposes the bytes after it as the file's content.\<close>
  "file_from_message msg =
     (case data msg of
        [] \<Rightarrow> Inl Corrupt
      | b # _ \<Rightarrow> if b = CHR ''f'' then Inr (File msg) else Inl Corrupt)"

definition directory_from_message ::
  "(byte list \<Rightarrow> (string \<times> string) list option) \<Rightarrow> message \<Rightarrow> error + node" where
  \<comment> \<open>Modelled from the spec: \<^verbatim>\<open>Directory.from_message\<close> (directory.py is absent) requires
      the first byte to be \<^verbatim>\<open>'d'\<close> and decodes the child list that follows tag and marker;
      a failure to decode is the corrupt-content condition.\<close>
  "directory_from_message dec msg =
     (case data msg of
        [] \<Rightarrow> Inl Corrupt
      | b # _ \<Rightarrow>
          if b = CHR ''d'' then
            (case dec (drop 3 (data msg)) of
               None \<Rightarrow> Inl Corrupt
             | Some ch \<Rightarrow> Inr (Directory msg ch))
          else Inl Corrupt)"

definition directory_create :: "((string \<times> string) list \<Rightarrow> byte list) \<Rightarrow> string \<Rightarrow> node" where
  \<comment> \<open>Modelled from the spec: \<^verbatim>\<open>Directory.create\<close> (directory.py is absent) makes a
      directory under a new name whose content is the tag, the marker and the empty child
      list, marked dirty. The new name is the argument \<open>fresh\<close>.\<close>
  "directory_create enc fresh =
     Directory ((create fresh)\<lparr>data := dir_header @ enc []\<rparr>) []"

definition get_child_by_name :: "node \<Rightarrow> string \<Rightarrow> (error + string option)" where
  \<comment> \<open>Modelled from the spec: \<^verbatim>\<open>Directory.get_child_by_name\<close> (directory.py is absent)
      answers the name of the child with the given display name, or \<^verbatim>\<open>None\<close>. A file has
      no such method.\<close>
  "get_child_by_name nd display =
     (case nd of
        Directory _ ch \<Rightarrow> Inr (map_option fst (find (\<lambda>(k, d). d = display) ch))
      | File _ \<Rightarrow> Inl AttributeError)"

definition add_child ::
  "((string \<times> string) list \<Rightarrow> byte list) \<Rightarrow> node \<Rightarrow> string \<Rightarrow> string \<Rightarrow> error + node" where
  \<comment> \<open>Modelled from the spec: \<^verbatim>\<open>Directory.add_child\<close> (directory.py is absent) fails with
      AlreadyExists when the display name is present; otherwise it inserts the child,
      re-encodes the child list into the message and marks the message dirty.\<close>
  "add_child enc nd key display =
     (case nd of
        Directory msg ch \<Rightarrow>
          if display \<in> snd ` set ch then Inl AlreadyExists
          else
            (let ch' = AList.update key display ch
             in Inr (Directory (msg\<lparr>data := dir_header @ enc ch', dirty := True\<rparr>) ch'))
      | File _ \<Rightarrow> Inl AttributeError)"

definition node_flush :: "IMAPConnection \<Rightarrow> node \<Rightarrow> IMAPConnection \<times> node" where
  \<comment> \<open>Modelled from the spec: \<^verbatim>\<open>flush\<close> of a node (file.py and directory.py are absent)
      flushes its message.\<close>
  "node_flush c nd =
     (case nd of
        File msg \<Rightarrow> (case flush c msg of (c', msg') \<Rightarrow> (c', File msg'))
      | Directory msg ch \<Rightarrow> (case flush c msg of (c', msg') \<Rightarrow> (c', Directory msg' ch)))"

definition file_seek :: "message \<Rightarrow> int \<Rightarrow> message" where
  \<comment> \<open>Modelled from the spec: \<^verbatim>\<open>File.seek\<close> (file.py is absent) delegates to the message,
      offset by the one-byte header.\<close>
  "file_seek msg off = seek msg (off + 1) SEEK_SET"

definition file_read :: "message \<Rightarrow> int option \<Rightarrow> byte list \<times> message" where
  \<comment> \<open>Modelled from the spec: \<^verbatim>\<open>File.read\<close> (file.py is absent) delegates to the message.\<close>
  "file_read msg size_opt = read msg size_opt"

section \<open>The filesystem (\<^verbatim>\<open>fs.py\<close>)\<close>

text \<open>
  \<^verbatim>\<open>fs.py\<close> is Python 2 (octal literals such as \<^verbatim>\<open>0777\<close>): \<^verbatim>\<open>str\<close> of a
  \<^verbatim>\<open>bytearray\<close> is its bytes, and strings are byte strings. An operation returns the
  value it returns, or the exception that leaves it, together with the new state.
\<close>

definition ROOT :: string where
  \<comment> \<open>\<^verbatim>\<open>str(uuid.UUID(bytes='\0' * 16))\<close>\<close>
  "ROOT = ''00000000-0000-0000-0000-000000000000''"

definition open_node ::
  "(byte list \<Rightarrow> (string \<times> string) list option) \<Rightarrow> IMAPFS \<Rightarrow> string
     \<Rightarrow> (error + node option) \<times> IMAPFS" where
  \<comment> \<open>The bare \<^verbatim>\<open>except\<close> covers \<^verbatim>\<open>Message.open\<close> only. A \<^verbatim>\<open>Message\<close> object is
      always true, so \<^verbatim>\<open>if not msg\<close> never returns. With a tag that is neither \<^verbatim>\<open>'f'\<close>
      nor \<^verbatim>\<open>'d'\<close> the name \<^verbatim>\<open>obj\<close> is unbound at the assignment to the cache.\<close>
  "open_node dec st n =
     (case map_of (open_nodes st) n of
        Some obj \<Rightarrow> (Inr (Some obj), st)
      | None \<Rightarrow>
          (case message_open (imap st) n of
             (Inl e, c) \<Rightarrow> (Inr None, st\<lparr>imap := c\<rparr>)
           | (Inr msg, c) \<Rightarrow>
               (case data msg of
                  [] \<Rightarrow> (Inl IndexError, st\<lparr>imap := c\<rparr>)
                | type_code # _ \<Rightarrow>
                    if type_code = CHR ''f'' then
                      (case file_from_message msg of
                         Inl e \<Rightarrow> (Inl e, st\<lparr>imap := c\<rparr>)
                       | Inr obj \<Rightarrow>
                           (Inr (Some obj),
                            st\<lparr>imap := c, open_nodes := AList.update n obj (open_nodes st)\<rparr>))
                    else if type_code = CHR ''d'' then
                      (case directory_from_message dec msg of
                         Inl e \<Rightarrow> (Inl e, st\<lparr>imap := c\<rparr>)
                       | Inr obj \<Rightarrow>
                           (Inr (Some obj),
                            st\<lparr>imap := c, open_nodes := AList.update n obj (open_nodes st)\<rparr>))
                    else (Inl UnboundLocalError, st\<lparr>imap := c\<rparr>))))"

definition check_filesystem ::
  "(byte list \<Rightarrow> (string \<times> string) list option) \<Rightarrow> IMAPFS \<Rightarrow> (error + bool option) \<times> IMAPFS" where
  \<comment> \<open>the result is Python's \<^verbatim>\<open>True\<close>, \<^verbatim>\<open>False\<close> or \<^verbatim>\<open>None\<close>\<close>
  "check_filesystem dec st =
     (case open_node dec st ROOT of
        (Inl e, st') \<Rightarrow> (Inl e, st')
      | (Inr None, st') \<Rightarrow> (Inr (Some False), st')
      | (Inr (Some (File _)), st') \<Rightarrow> (Inr (Some False), st')
      | (Inr (Some (Directory msg _)), st') \<Rightarrow>
          (if slice (data msg) 0 3 \<noteq> dir_header then (Inr (Some False), st')
           else (Inr (Some True), st')))"

fun split :: "char \<Rightarrow> string \<Rightarrow> string list" where
  \<comment> \<open>\<^verbatim>\<open>s.split(sep)\<close> for a one-character separator\<close>
  "split sep [] = [[]]"
| "split sep (c # cs) =
     (if c = sep then [] # split sep cs
      else (case split sep cs of [] \<Rightarrow> [[c]] | p # ps \<Rightarrow> (c # p) # ps))"

definition rpartition :: "char \<Rightarrow> string \<Rightarrow> string \<times> string \<times> string" where
  \<comment> \<open>\<^verbatim>\<open>s.rpartition(sep)\<close> for a one-character separator\<close>
  "rpartition sep s =
     (if sep \<in> set s then
        (let tail = rev (takeWhile (\<lambda>c. c \<noteq> sep) (rev s))
         in (take (length s - length tail - 1) s, [sep], tail))
      else ([], [], s))"

fun walk ::
  "(byte list \<Rightarrow> (string \<times> string) list option) \<Rightarrow> IMAPFS \<Rightarrow> node option \<Rightarrow> string list
     \<Rightarrow> (error + node option) \<times> IMAPFS" where
  \<comment> \<open>the loop of \<^verbatim>\<open>get_node_by_path\<close>; \<open>cur\<close> is \<^verbatim>\<open>current_node\<close>. The \<^verbatim>\<open>break\<close> leaves
      the loop for \<^verbatim>\<open>return current_node\<close>.\<close>
  "walk dec st cur [] = (Inr cur, st)"
| "walk dec st cur (part # parts) =
     (if part = [] then walk dec st cur parts
      else
        (case cur of
           Some (Directory msg ch) \<Rightarrow>
             (case get_child_by_name (Directory msg ch) part of
                Inl e \<Rightarrow> (Inl e, st)
              | Inr None \<Rightarrow> (Inr None, st)
              | Inr (Some child_key) \<Rightarrow>
                  if child_key = [] then (Inr None, st)
                  else
                    (case open_node dec st child_key of
                       (Inl e, st') \<Rightarrow> (Inl e, st')
                     | (Inr None, st') \<Rightarrow> (Inr None, st')
                     | (Inr (Some child_node), st') \<Rightarrow> walk dec st' (Some child_node) parts))
         | _ \<Rightarrow> (Inr cur, st)))"

definition get_node_by_path ::
  "(byte list \<Rightarrow> (string \<times> string) list option) \<Rightarrow> IMAPFS \<Rightarrow> string
     \<Rightarrow> (error + node option) \<times> IMAPFS" where
  "get_node_by_path dec st path =
     (if path = ''/'' then open_node dec st ROOT
      else
        (case open_node dec st ROOT of
           (Inl e, st') \<Rightarrow> (Inl e, st')
         | (Inr current_node, st') \<Rightarrow> walk dec st' current_node (split (CHR ''/'') path)))"

definition get_path_parent :: "string \<Rightarrow> string" where
  "get_path_parent path = fst (rpartition (CHR ''/'') path)"

definition get_path_filename :: "string \<Rightarrow> string" where
  "get_path_filename path = snd (snd (rpartition (CHR ''/'') path))"

definition store_node :: "IMAPFS \<Rightarrow> node \<Rightarrow> IMAPFS" where
  \<comment> \<open>a changed node object, seen through its entry in \<^verbatim>\<open>open_nodes\<close>\<close>
  "store_node st nd =
     (if name (node_message nd) \<in> fst ` set (open_nodes st)
      then st\<lparr>open_nodes := AList.update (name (node_message nd)) nd (open_nodes st)\<rparr>
      else st)"

definition mkdir ::
  "(byte list \<Rightarrow> (string \<times> string) list option) \<Rightarrow> ((string \<times> string) list \<Rightarrow> byte list)
     \<Rightarrow> string \<Rightarrow> IMAPFS \<Rightarrow> string \<Rightarrow> (error + reply) \<times> IMAPFS" where
  \<comment> \<open>\<open>fresh\<close> is the name \<^verbatim>\<open>Directory.create\<close> draws; the unused \<^verbatim>\<open>mode\<close> is left out\<close>
  "mkdir dec enc fresh st path =
     (case get_node_by_path dec st path of
        (Inl e, st1) \<Rightarrow> (Inl e, st1)
      | (Inr (Some nd), st1) \<Rightarrow> (Inr (Neg EEXIST), st1)
      | (Inr None, st1) \<Rightarrow>
          (case get_node_by_path dec st1 (get_path_parent path) of
             (Inl e, st2) \<Rightarrow> (Inl e, st2)
           | (Inr None, st2) \<Rightarrow> (Inr (Neg EEXIST), st2)
           | (Inr (Some parent), st2) \<Rightarrow>
               (let child = directory_create enc fresh;
                    st3 = st2\<lparr>open_nodes :=
                            AList.update (name (node_message child)) child (open_nodes st2)\<rparr>
                in (case add_child enc parent (name (node_message child))
                           (get_path_filename path) of
                      Inl e \<Rightarrow> (Inl e, st3)
                    | Inr parent1 \<Rightarrow>
                        (case node_flush (imap st3) child of
                           (c1, child1) \<Rightarrow>
                             (case node_flush c1 parent1 of
                                (c2, parent2) \<Rightarrow>
                                  (Inr Nothing,
                                   store_node (store_node (st3\<lparr>imap := c2\<rparr>) child1)
                                     parent2)))))))"

definition fs_read ::
  "(byte list \<Rightarrow> (string \<times> string) list option) \<Rightarrow> IMAPFS \<Rightarrow> string \<Rightarrow> int \<Rightarrow> int
     \<Rightarrow> (error + reply) \<times> IMAPFS" where
  \<comment> \<open>\<^verbatim>\<open>IMAPFS.read(path, size, offset)\<close>\<close>
  "fs_read dec st path sz offset =
     (case get_node_by_path dec st path of
        (Inl e, st1) \<Rightarrow> (Inl e, st1)
      | (Inr None, st1) \<Rightarrow> (Inr (Neg ENOENT), st1)
      | (Inr (Some (Directory _ _)), st1) \<Rightarrow> (Inr (Neg EISDIR), st1)
      | (Inr (Some (File msg)), st1) \<Rightarrow>
          (case file_read (file_seek msg offset) (Some sz) of
             (buf, msg') \<Rightarrow> (Inr (Data buf), store_node st1 (File msg'))))"

section \<open>The current version of a name\<close>



section \<open>Example inputs\<close>

definition msg_abcde :: message where
  "msg_abcde = \<lparr>name = ''n'', data = ''abcde'', dirty = False, pos = 4, compress = False\<rparr>"

definition msg_beyond :: message where
  "msg_beyond = \<lparr>name = ''n'', data = ''abc'', dirty = False, pos = 5, compress = False\<rparr>"

definition msg_negative :: message where
  "msg_negative = \<lparr>name = ''n'', data = ''abcde'', dirty = False, pos = - 2, compress = False\<rparr>"

definition server_empty :: server where
  "server_empty = \<lparr>mails = [], next_uid = 1, uidplus = True, log = []\<rparr>"

definition conn_stale :: IMAPConnection where
  \<comment> \<open>nothing is stored under \<open>''n''\<close>, but the cache still maps it to the UID 7\<close>
  "conn_stale = \<lparr>conn = server_empty, mailbox = ''INBOX'', uid_cache = [(''n'', ''7'')]\<rparr>"






definition conn_empty :: IMAPConnection where
  "conn_empty = \<lparr>conn = server_empty, mailbox = ''INBOX'', uid_cache = []\<rparr>"

definition fs_absent :: IMAPFS where
  \<comment> \<open>an empty mailbox: no root object, nothing open\<close>
  "fs_absent = \<lparr>imap = conn_empty, open_nodes = []\<rparr>"

definition fs_file_under_root :: IMAPFS where
  \<comment> \<open>the root directory and its only child, the file \<open>''f''\<close>, both open\<close>
  "fs_file_under_root =
     \<lparr>imap = conn_empty,
      open_nodes =
        [(ROOT,
          Directory
            \<lparr>name = ROOT, data = dir_header, dirty = False, pos = 0, compress = False\<rparr>
            [(''k1'', ''f'')]),
         (''k1'',
          File \<lparr>name = ''k1'', data = ''fhello'', dirty = False, pos = 0,
                compress = False\<rparr>)]\<rparr>"

definition fs_bad_tag :: IMAPFS where
  \<comment> \<open>the object stored under \<open>''k1''\<close> starts with a byte that is neither tag\<close>
  "fs_bad_tag =
     \<lparr>imap =
        \<lparr>conn =
           \<lparr>mails = [\<lparr>uid = ''1'', subject = ''k1'', body = ''xyz'', deleted = False\<rparr>],
            next_uid = 2, uidplus = True, log = []\<rparr>,
         mailbox = ''INBOX'', uid_cache = []\<rparr>,
      open_nodes = []\<rparr>"

definition fs_empty_root :: IMAPFS where
  \<comment> \<open>an initialised filesystem: the root directory, stored and open, without children\<close>
  "fs_empty_root =
     \<lparr>imap =
        \<lparr>conn =
           \<lparr>mails = [\<lparr>uid = ''1'', subject = ROOT, body = dir_header, deleted = False\<rparr>],
            next_uid = 2, uidplus = True, log = []\<rparr>,
         mailbox = ''INBOX'', uid_cache = []\<rparr>,
      open_nodes =
        [(ROOT,
          Directory
            \<lparr>name = ROOT, data = dir_header, dirty = False, pos = 0, compress = False\<rparr>
            [])]\<rparr>"

section \<open>Slices at bounds that are in range\<close>

lemma py_bound_nonneg: "0 \<le> i \<Longrightarrow> py_bound n i = min n (nat i)"
  by (auto simp: py_bound_def)

lemma slice_nonneg:
  "0 \<le> lo \<Longrightarrow> 0 \<le> sz \<Longrightarrow> slice xs lo (lo + sz) = take (nat sz) (drop (nat lo) xs)"
  by (auto simp: slice_def py_bound_nonneg Let_def min_def nat_add_distrib)

lemma slice_from_nonneg: "0 \<le> lo \<Longrightarrow> slice_from xs lo = drop (nat lo) xs"
  by (auto simp: slice_from_def py_bound_nonneg min_def)

section \<open>The cursor\<close>

text \<open>
  Claim C9. For a buffer of length \<open>L\<close>, \<^verbatim>\<open>seek(off, SEEK_END)\<close> sets the cursor to
  \<open>L - off\<close>: a positive offset moves backward from the end, where POSIX would give
  \<open>L + off\<close>. No mode checks any bound: every integer \<open>p\<close>, beyond the end or negative,
  is reached by some offset in each of the three modes, and the data is never touched.
\<close>

theorem seek_positions:
  "pos (seek m off SEEK_END) = int (length (data m)) - off
   \<and> pos (seek m off SEEK_SET) = off
   \<and> pos (seek m off SEEK_CUR) = pos m + off
   \<and> data (seek m off w) = data m
   \<and> (\<exists>off'. pos (seek m off' SEEK_END) = p)
   \<and> (\<exists>off'. pos (seek m off' SEEK_SET) = p)
   \<and> (\<exists>off'. pos (seek m off' SEEK_CUR) = p)"
proof -
  have "pos (seek m (int (length (data m)) - p) SEEK_END) = p"
    by (simp add: seek_def SEEK_SET_def SEEK_CUR_def SEEK_END_def)
  then have e: "\<exists>off'. pos (seek m off' SEEK_END) = p" by blast
  have "pos (seek m p SEEK_SET) = p"
    by (simp add: seek_def SEEK_SET_def)
  then have s: "\<exists>off'. pos (seek m off' SEEK_SET) = p" by blast
  have "pos (seek m (p - pos m) SEEK_CUR) = p"
    by (simp add: seek_def SEEK_SET_def SEEK_CUR_def)
  then have c: "\<exists>off'. pos (seek m off' SEEK_CUR) = p" by blast
  have d: "data (seek m off w) = data m"
    by (simp add: seek_def)
  have v: "pos (seek m off SEEK_END) = int (length (data m)) - off
   \<and> pos (seek m off SEEK_SET) = off
   \<and> pos (seek m off SEEK_CUR) = pos m + off"
    by (simp add: seek_def SEEK_SET_def SEEK_CUR_def SEEK_END_def)
  show ?thesis using e s c d v by blast
qed

theorem seek_positions_witness:
  "pos (seek msg_abcde 2 SEEK_END) = 3
   \<and> pos (seek msg_abcde (- 2) SEEK_END) = 7
   \<and> pos (seek msg_abcde 9 SEEK_END) = - 4
   \<and> pos (seek msg_abcde (- 1) SEEK_SET) = - 1
   \<and> pos (seek msg_abcde 3 SEEK_CUR) = 7"
  using seek_positions [of msg_abcde 2 0 0] seek_positions [of msg_abcde "- 2" 0 0]
    seek_positions [of msg_abcde 9 0 0] seek_positions [of msg_abcde "- 1" 0 0]
    seek_positions [of msg_abcde 3 0 0]
  by (simp add: msg_abcde_def)

section \<open>Reading with the cursor beyond the end\<close>

text \<open>
  Claim C10. When the cursor lies strictly beyond the end of the data, \<^verbatim>\<open>read(size)\<close>
  with an explicit size (a byte count, so not negative) returns no bytes and moves the
  cursor back to exactly the length of the data; the data is unchanged.
\<close>

theorem read_past_end:
  assumes "int (length (data m)) < pos m" and "0 \<le> sz"
  shows "fst (read m (Some sz)) = []
     \<and> pos (snd (read m (Some sz))) = int (length (data m))
     \<and> data (snd (read m (Some sz))) = data m"
  using assms by (auto simp: read_def slice_def py_bound_def Let_def)

theorem read_past_end_witness:
  "int (length (data msg_beyond)) < pos msg_beyond \<and> (0::int) \<le> 2
   \<and> fst (read msg_beyond (Some 2)) = []
   \<and> pos (snd (read msg_beyond (Some 2))) = 3
   \<and> data (snd (read msg_beyond (Some 2))) = ''abc''"
proof -
  have h: "int (length (data msg_beyond)) < pos msg_beyond"
    by (simp add: msg_beyond_def)
  show ?thesis using h read_past_end [OF h, of 2]
    by (simp add: msg_beyond_def)
qed

section \<open>Resizing\<close>

text \<open>
  Claim C7. For a buffer of length \<open>L\<close>: \<^verbatim>\<open>truncate(M)\<close> with \<open>0 \<le> M < L\<close> leaves
  exactly the first \<open>M\<close> bytes and clamps the cursor to at most \<open>M\<close>;
  \<^verbatim>\<open>truncate(L + K)\<close> with \<open>K \<ge> 0\<close> keeps the first \<open>L\<close> bytes and appends \<open>K\<close> copies
  of the filler byte \<^verbatim>\<open>b"."\<close>, which is printable and is not zero. Both set the dirty
  flag.
\<close>

theorem truncate_shrink_grow:
  "(0 \<le> M \<and> M < int (length (data m)) \<longrightarrow>
      data (truncate m (Some M)) = take (nat M) (data m)
      \<and> pos (truncate m (Some M)) = min (pos m) M
      \<and> pos (truncate m (Some M)) \<le> M
      \<and> dirty (truncate m (Some M)))
   \<and> data (truncate m (Some (int (length (data m)) + int K))) = data m @ replicate K (CHR ''.'')
   \<and> take (length (data m)) (data (truncate m (Some (int (length (data m)) + int K)))) = data m
   \<and> pos (truncate m (Some (int (length (data m)) + int K))) = pos m
   \<and> dirty (truncate m (Some (int (length (data m)) + int K)))
   \<and> CHR ''.'' \<noteq> (CHR 0x00 :: byte)
   \<and> (32::nat) \<le> of_char (CHR ''.'') \<and> (of_char (CHR ''.'') :: nat) < 127"
  by (auto simp: truncate_def slice_to_def py_bound_def)

theorem truncate_shrink_grow_witness:
  "(0::int) \<le> 2 \<and> 2 < int (length (data msg_abcde))
   \<and> data (truncate msg_abcde (Some 2)) = ''ab''
   \<and> pos (truncate msg_abcde (Some 2)) = 2
   \<and> dirty (truncate msg_abcde (Some 2))
   \<and> data (truncate msg_abcde (Some 8)) = ''abcde...''
   \<and> dirty (truncate msg_abcde (Some 8))"
  using truncate_shrink_grow [of 2 msg_abcde 3]
  by (simp add: msg_abcde_def numeral_eq_Suc)


section \<open>Flushing\<close>
















section \<open>A stale cache entry\<close>

lemma server_fetch_answer: "fst (server_fetch srv u) \<noteq> []"
  by (simp add: server_fetch_def)

lemma get_message_keeps_cache: "uid_cache (snd (get_message c u)) = uid_cache c"
  by (simp add: get_message_def server_fetch_def split: option.splits)

text \<open>
  Claim C3. A name with no version in the store is to be reported as not found, and its
  removal is to do nothing, a second call behaving like the first, also when the cache
  still holds a stale UID for the name. With an empty cache the source does so:
  \<^verbatim>\<open>Message.open\<close> raises \<^verbatim>\<open>IOError\<close>, its not-found report. With a stale entry it does
  not: the lookup answers the cached UID, the fetch of that UID answers \<^verbatim>\<open>[None]\<close>, which
  \<^verbatim>\<open>not params[1]\<close> does not catch, and \<^verbatim>\<open>params[1][0][1]\<close> raises \<^verbatim>\<open>TypeError\<close>.
  The purge of the cache is never reached, the stale entry stays, and the second call
  raises \<^verbatim>\<open>TypeError\<close> again. \<^verbatim>\<open>Message.unlink\<close> purges through \<^verbatim>\<open>delete_message\<close>: it
  raises nothing and leaves the stored messages as they are, on the first call and on the
  second.
\<close>

theorem stale_cache_get_raises:
  "mails (conn conn_stale) = []
   \<and> map_of (uid_cache conn_stale) ''n'' = Some ''7''
   \<and> fst (get_message conn_stale ''7'') = Inl TypeError
   \<and> fst (message_open conn_stale ''n'') = Inl TypeError
   \<and> fst (message_open conn_stale ''n'') \<noteq> Inl IOError
   \<and> uid_cache (snd (message_open conn_stale ''n'')) = [(''n'', ''7'')]
   \<and> fst (message_open (snd (message_open conn_stale ''n'')) ''n'') = Inl TypeError
   \<and> fst (message_open conn_empty ''n'') = Inl IOError
   \<and> fst (message_open (snd (message_open conn_empty ''n'')) ''n'') = Inl IOError
   \<and> mails (conn (unlink conn_stale ''n'')) = []
   \<and> uid_cache (unlink conn_stale ''n'') = []
   \<and> mails (conn (unlink (unlink conn_stale ''n'') ''n'')) = []"
  by (simp add: conn_stale_def conn_empty_def server_empty_def message_open_def unlink_def
      get_uid_by_subject_def truthy_def get_message_def server_fetch_def
      search_by_subject_def server_search_def delete_message_def server_store_deleted_def)

section \<open>Reading\<close>

lemma read_all_nonneg:
  "0 \<le> pos m \<Longrightarrow> fst (read m None) = drop (nat (pos m)) (data m)"
  by (simp add: read_def Let_def slice_from_nonneg)

lemma read_some_nonneg:
  assumes "0 \<le> pos m" and "0 \<le> sz"
  shows "fst (read m (Some sz)) = take (nat sz) (drop (nat (pos m)) (data m))"
proof (cases "sz + pos m > int (length (data m))")
  case True
  then have "fst (read m (Some sz)) =
      slice (data m) (pos m) (pos m + (int (length (data m)) - pos m))"
    by (simp add: read_def Let_def)
  then show ?thesis using assms True
    by (auto simp: slice_def py_bound_def Let_def)
next
  case False
  then have "fst (read m (Some sz)) = slice (data m) (pos m) (pos m + sz)"
    by (simp add: read_def Let_def)
  then show ?thesis using assms by (simp add: slice_nonneg)
qed

lemma fs_read_file:
  assumes "fst (get_node_by_path dec st path) = Inr (Some (File msg))"
    and "0 \<le> offset" and "0 \<le> sz"
  shows "fst (fs_read dec st path sz offset) =
           Inr (Data (take (nat sz) (drop (nat offset) (tl (data msg)))))"
proof -
  obtain st1 where g: "get_node_by_path dec st path = (Inr (Some (File msg)), st1)"
    using assms(1) by (cases "get_node_by_path dec st path") auto
  have p: "0 \<le> pos (file_seek msg offset)" "pos (file_seek msg offset) = offset + 1"
    "data (file_seek msg offset) = data msg"
    using assms(2) by (simp_all add: file_seek_def seek_def SEEK_SET_def)
  have "fst (file_read (file_seek msg offset) (Some sz)) =
          take (nat sz) (drop (nat (offset + 1)) (data msg))"
    using read_some_nonneg [OF p(1) assms(3)] p by (simp add: file_read_def)
  moreover have "drop (nat (offset + 1)) (data msg) = drop (nat offset) (tl (data msg))"
    using assms(2) by (simp add: nat_add_distrib drop_Suc)
  ultimately have r: "fst (file_read (file_seek msg offset) (Some sz)) =
          take (nat sz) (drop (nat offset) (tl (data msg)))"
    by simp
  obtain buf msg' where f: "file_read (file_seek msg offset) (Some sz) = (buf, msg')"
    by (cases "file_read (file_seek msg offset) (Some sz)")
  show ?thesis using g f r
    by (simp add: fs_read_def)
qed

text \<open>
  Claim C8, as the source has it. The claim is made for every cursor position, and the
  cursor may be negative; a negative cursor is a Python index from the end. At the cursor
  \<open>-2\<close> of the five bytes \<^verbatim>\<open>abcde\<close>, \<^verbatim>\<open>read()\<close> returns \<^verbatim>\<open>de\<close> and leaves the cursor at
  \<open>0\<close>, and \<^verbatim>\<open>read(5)\<close> returns no byte at all, although bytes lie between the cursor and
  the end: the request was not clamped to the bytes available.
\<close>

theorem read_negative_cursor:
  "pos msg_negative = - 2 \<and> data msg_negative = ''abcde''
   \<and> fst (read msg_negative None) = ''de''
   \<and> pos (snd (read msg_negative None)) = 0
   \<and> fst (read msg_negative (Some 5)) = []
   \<and> pos (snd (read msg_negative (Some 5))) = 3
   \<and> fst (read msg_negative None) \<noteq> drop (nat (pos msg_negative)) (data msg_negative)
   \<and> fst (read msg_negative (Some 5)) \<noteq> take 5 (fst (read msg_negative None))"
  by (simp add: msg_negative_def read_def slice_from_def slice_def py_bound_def Let_def)

text \<open>
  Claim C8, amended. For every buffer and every cursor position that is not negative,
  \<^verbatim>\<open>read()\<close> returns all bytes from the cursor to the end of the data (none when the
  cursor is beyond the end), and \<^verbatim>\<open>read(size)\<close>, for a byte count \<open>size\<close>, returns the
  first \<open>size\<close> of them, fewer when fewer are left: the smaller of \<open>size\<close> and the number
  of bytes available; it raises nothing. At the dispatcher, \<^verbatim>\<open>read(path, size, offset)\<close>
  on a path that resolves to a file, with byte counts \<open>size\<close> and \<open>offset\<close>, returns the
  \<open>size\<close> bytes of the content from \<open>offset\<close> on, and fewer than \<open>size\<close> only when the
  content ends there.
\<close>

theorem read_clamps:
  "(0 \<le> pos m \<longrightarrow>
      fst (read m None) = drop (nat (pos m)) (data m)
      \<and> (0 \<le> sz \<longrightarrow>
            fst (read m (Some sz)) = take (nat sz) (drop (nat (pos m)) (data m))
            \<and> length (fst (read m (Some sz))) = min (nat sz) (length (data m) - nat (pos m))))
   \<and> (0 \<le> offset \<and> 0 \<le> sz \<and> fst (get_node_by_path dec st path) = Inr (Some (File msg)) \<longrightarrow>
        fst (fs_read dec st path sz offset) =
          Inr (Data (take (nat sz) (drop (nat offset) (tl (data msg)))))
        \<and> (length (take (nat sz) (drop (nat offset) (tl (data msg)))) < nat sz \<longrightarrow>
             int (length (tl (data msg)))
               \<le> offset + int (length (take (nat sz) (drop (nat offset) (tl (data msg)))))))"
proof -
  have a: "0 \<le> pos m \<longrightarrow> fst (read m None) = drop (nat (pos m)) (data m)"
    by (simp add: read_all_nonneg)
  have b: "0 \<le> pos m \<longrightarrow> 0 \<le> sz \<longrightarrow>
      fst (read m (Some sz)) = take (nat sz) (drop (nat (pos m)) (data m))"
    by (simp add: read_some_nonneg)
  have c: "0 \<le> offset \<and> 0 \<le> sz \<and> fst (get_node_by_path dec st path) = Inr (Some (File msg)) \<longrightarrow>
        fst (fs_read dec st path sz offset) =
          Inr (Data (take (nat sz) (drop (nat offset) (tl (data msg)))))"
    by (simp add: fs_read_file)
  have d: "0 \<le> offset \<longrightarrow>
      length (take (nat sz) (drop (nat offset) (tl (data msg)))) < nat sz \<longrightarrow>
      int (length (tl (data msg)))
        \<le> offset + int (length (take (nat sz) (drop (nat offset) (tl (data msg)))))"
    by auto
  have e: "0 \<le> pos m \<longrightarrow> 0 \<le> sz \<longrightarrow>
      length (fst (read m (Some sz))) = min (nat sz) (length (data m) - nat (pos m))"
    using b by (simp add: min.commute)
  show ?thesis using a b c d e by blast
qed

theorem read_clamps_witness:
  "0 \<le> pos msg_abcde
   \<and> fst (read msg_abcde None) = ''e''
   \<and> fst (read msg_abcde (Some 3)) = ''e''
   \<and> length (fst (read msg_abcde (Some 3))) = 1
   \<and> fst (get_node_by_path (\<lambda>_. None) fs_file_under_root ''/f'') =
       Inr (Some (File \<lparr>name = ''k1'', data = ''fhello'', dirty = False, pos = 0,
                        compress = False\<rparr>))
   \<and> fst (fs_read (\<lambda>_. None) fs_file_under_root ''/f'' 10 2) = Inr (Data ''llo'')"
proof -
  have r: "fst (get_node_by_path (\<lambda>_. None) fs_file_under_root ''/f'') =
       Inr (Some (File \<lparr>name = ''k1'', data = ''fhello'', dirty = False, pos = 0,
                        compress = False\<rparr>))"
    by (simp add: fs_file_under_root_def get_node_by_path_def open_node_def ROOT_def
        get_child_by_name_def)
  have a: "0 \<le> pos msg_abcde
     \<and> fst (read msg_abcde None) = ''e''
     \<and> fst (read msg_abcde (Some 3)) = ''e''
     \<and> length (fst (read msg_abcde (Some 3))) = 1"
    using read_clamps [of msg_abcde 3 0 "\<lambda>_. None" fs_file_under_root "''/f''"
        "\<lparr>name = ''k1'', data = ''fhello'', dirty = False, pos = 0, compress = False\<rparr>"]
    by (simp add: msg_abcde_def)
  have b: "fst (fs_read (\<lambda>_. None) fs_file_under_root ''/f'' 10 2) = Inr (Data ''llo'')"
    using r read_clamps [of msg_abcde 10 2 "\<lambda>_. None" fs_file_under_root "''/f''"
        "\<lparr>name = ''k1'', data = ''fhello'', dirty = False, pos = 0, compress = False\<rparr>"]
    by simp
  show ?thesis using a b r by blast
qed

section \<open>Opening nodes and resolving paths\<close>

lemma open_node_cached:
  "map_of (open_nodes st) n = Some obj \<Longrightarrow> open_node dec st n = (Inr (Some obj), st)"
  by (simp add: open_node_def)

lemma open_node_file:
  assumes "map_of (open_nodes st) n = None"
    and "message_open (imap st) n = (Inr msg, c)"
    and "data msg = CHR ''f'' # rest"
  shows "open_node dec st n =
           (Inr (Some (File msg)),
            st\<lparr>imap := c, open_nodes := AList.update n (File msg) (open_nodes st)\<rparr>)"
  using assms by (simp add: open_node_def file_from_message_def)

lemma open_node_directory:
  assumes "map_of (open_nodes st) n = None"
    and "message_open (imap st) n = (Inr msg, c)"
    and "data msg = CHR ''d'' # rest"
    and "dec (drop 3 (data msg)) = Some ch"
  shows "open_node dec st n =
           (Inr (Some (Directory msg ch)),
            st\<lparr>imap := c, open_nodes := AList.update n (Directory msg ch) (open_nodes st)\<rparr>)"
  using assms by (simp add: open_node_def directory_from_message_def)

lemma open_node_unknown_tag:
  assumes "map_of (open_nodes st) n = None"
    and "message_open (imap st) n = (Inr msg, c)"
    and "data msg = b # rest" and "b \<noteq> CHR ''f''" and "b \<noteq> CHR ''d''"
  shows "open_node dec st n = (Inl UnboundLocalError, st\<lparr>imap := c\<rparr>)"
  using assms by (simp add: open_node_def)

lemma walk_below_file:
  "walk dec st (Some (File m)) parts = (Inr (Some (File m)), st)"
  by (induction parts) auto

lemma walk_without_root: "walk dec st None parts = (Inr None, st)"
  by (induction parts) auto

text \<open>
  Claim C1. A path with a segment below a file is to fail with not-found, and \<^verbatim>\<open>"/"\<close>
  resolves to the root. The second holds: \<^verbatim>\<open>get_node_by_path("/")\<close> is
  \<^verbatim>\<open>open_node(ROOT)\<close>. The first does not: where the root holds the file \<^verbatim>\<open>f\<close>, the path
  \<^verbatim>\<open>/f/x\<close> resolves to the node of \<^verbatim>\<open>f\<close>, because the test for a non-directory leaves the
  loop with \<^verbatim>\<open>break\<close> and the function then returns the current node.
\<close>

theorem get_node_by_path_below_file:
  "fst (get_node_by_path dec fs_file_under_root ''/f/x'') =
     Inr (Some (File \<lparr>name = ''k1'', data = ''fhello'', dirty = False, pos = 0,
                      compress = False\<rparr>))
   \<and> fst (get_node_by_path dec fs_file_under_root ''/f/x'') \<noteq> Inr None
   \<and> get_node_by_path dec st ''/'' = open_node dec st ROOT"
  by (simp add: fs_file_under_root_def get_node_by_path_def open_node_def ROOT_def
      get_child_by_name_def)

text \<open>
  Claim C5. A stored object whose first byte is neither \<^verbatim>\<open>'f'\<close> nor \<^verbatim>\<open>'d'\<close> is to be
  reported as not found, without an exception. In the source only \<^verbatim>\<open>Message.open\<close> is
  inside the \<^verbatim>\<open>try\<close>; with such a tag neither branch binds \<^verbatim>\<open>obj\<close>, and the assignment
  to the cache raises \<^verbatim>\<open>UnboundLocalError\<close>. Nothing is added to the cache.
\<close>

theorem open_node_bad_tag:
  "fst (open_node dec fs_bad_tag ''k1'') = Inl UnboundLocalError
   \<and> fst (open_node dec fs_bad_tag ''k1'') \<noteq> Inr None
   \<and> open_nodes (snd (open_node dec fs_bad_tag ''k1'')) = []"
  by (simp add: fs_bad_tag_def open_node_def
      message_open_def get_uid_by_subject_def search_by_subject_def server_search_def
      truthy_def get_message_def server_fetch_def Message_def)

section \<open>Detecting a filesystem\<close>

text \<open>
  Claim C2. \<^verbatim>\<open>check_filesystem\<close> is to tell three cases apart, and its docstring says it
  returns \<^verbatim>\<open>None\<close> when no filesystem is found. The source returns \<^verbatim>\<open>False\<close> when the
  root cannot be opened: on an empty mailbox the result is \<^verbatim>\<open>False\<close>, the answer for a
  filesystem that is present and undecodable, and no state makes it return \<^verbatim>\<open>None\<close>.
  An initialised filesystem is reported as present.
\<close>

theorem check_filesystem_absent:
  "fst (check_filesystem dec fs_absent) = Inr (Some False)
   \<and> fst (check_filesystem dec st) \<noteq> Inr None
   \<and> fst (check_filesystem dec fs_empty_root) = Inr (Some True)"
proof -
  have c: "fst (check_filesystem dec fs_empty_root) = Inr (Some True)"
    by (simp add: fs_empty_root_def check_filesystem_def open_node_def ROOT_def
        dir_header_def slice_def py_bound_def)
  have a: "fst (check_filesystem dec fs_absent) = Inr (Some False)"
    by (simp add: fs_absent_def conn_empty_def server_empty_def check_filesystem_def
        open_node_def ROOT_def message_open_def get_uid_by_subject_def
        search_by_subject_def server_search_def truthy_def)
  have b: "fst (check_filesystem dec st) \<noteq> Inr None"
    by (auto simp: check_filesystem_def
        split: prod.splits sum.splits option.splits node.splits)
  show ?thesis using a b c by simp
qed


section \<open>Creating a directory\<close>

text \<open>
  Claim C4. \<^verbatim>\<open>mkdir\<close> on an occupied path fails with EEXIST, and on a path whose parent
  does not exist it is to fail with ENOENT. The source returns \<^verbatim>\<open>-fuse.EEXIST\<close> there
  too: in a filesystem whose root is empty, \<^verbatim>\<open>/a\<close> does not resolve, and \<^verbatim>\<open>mkdir\<close> of
  \<^verbatim>\<open>/a/b\<close> answers EEXIST. On success the order is as claimed: creating \<^verbatim>\<open>/a\<close> appends
  the new directory to the store first, then the root with the new child in its list, and
  last flags the root's old version deleted.
\<close>

theorem mkdir_missing_parent:
  "fst (get_node_by_path dec fs_empty_root ''/a/b'') = Inr None
   \<and> fst (get_node_by_path dec fs_empty_root ''/a'') = Inr None
   \<and> fst (mkdir dec enc fresh fs_empty_root ''/a/b'') = Inr (Neg EEXIST)
   \<and> fst (mkdir dec enc fresh fs_empty_root ''/a/b'') \<noteq> Inr (Neg ENOENT)
   \<and> fst (mkdir dec enc fresh fs_empty_root ''/'') = Inr (Neg EEXIST)
   \<and> fst (mkdir dec enc ''k2'' fs_empty_root ''/a'') = Inr Nothing
   \<and> log (conn (imap (snd (mkdir dec enc ''k2'' fs_empty_root ''/a'')))) =
       [SEARCH ''k2'', APPEND ''INBOX'' ''k2'' (dir_header @ enc []),
        SEARCH ROOT, APPEND ''INBOX'' ROOT (dir_header @ enc [(''k2'', ''a'')]),
        STORE ''1'']"
proof -
  have a: "fst (get_node_by_path dec fs_empty_root ''/a/b'') = Inr None
     \<and> fst (get_node_by_path dec fs_empty_root ''/a'') = Inr None"
    by (simp add: fs_empty_root_def get_node_by_path_def open_node_def ROOT_def
        get_child_by_name_def)
  have b: "fst (mkdir dec enc fresh fs_empty_root ''/a/b'') = Inr (Neg EEXIST)
     \<and> fst (mkdir dec enc fresh fs_empty_root ''/'') = Inr (Neg EEXIST)"
    by (simp add: fs_empty_root_def mkdir_def get_node_by_path_def open_node_def ROOT_def
        get_child_by_name_def get_path_parent_def rpartition_def)
  have c: "fst (mkdir dec enc ''k2'' fs_empty_root ''/a'') = Inr Nothing
     \<and> log (conn (imap (snd (mkdir dec enc ''k2'' fs_empty_root ''/a'')))) =
       [SEARCH ''k2'', APPEND ''INBOX'' ''k2'' (dir_header @ enc []),
        SEARCH ROOT, APPEND ''INBOX'' ROOT (dir_header @ enc [(''k2'', ''a'')]),
        STORE ''1'']"
    by (simp add: fs_empty_root_def mkdir_def get_node_by_path_def open_node_def ROOT_def
        get_child_by_name_def get_path_parent_def get_path_filename_def rpartition_def
        directory_create_def create_def Message_def node_message_def add_child_def
        node_flush_def flush_def get_uid_by_subject_def search_by_subject_def
        server_search_def put_message_def server_append_def truthy_def delete_message_def
        server_store_deleted_def store_node_def Let_def)
  show ?thesis using a b c by simp
qed

end
